theory Spec2Isabelle
  imports Main "HOL-Library.Word"
begin

section \<open>Data model\<close>

text \<open>
  A \<open>Buffer\<close> is a list of bytes. An \<open>Address\<close> is modelled by its 20-byte buffer
  (\<open>address.buf\<close>), a state root or hash by its 32-byte buffer. JavaScript \<open>bigint\<close>
  and \<open>number\<close> values are unbounded integers. A value that may be \<open>undefined\<close> is an
  \<open>option\<close>.
\<close>

type_synonym buffer = "8 word list"
type_synonym address = buffer

text \<open>
  Exceptions are values. \<open>Error msg\<close> is \<open>throw new Error(msg)\<close>, also used for whatever
  an external collaborator throws; \<open>HardhatError msg\<close> is what \<open>assertHardhatInvariant\<close>
  throws; \<open>UnknownStateRoot\<close> is the state store's failure on a root it never observed,
  \<open>InvalidAccount\<close> its failure on an account it cannot store.
\<close>

datatype error = Error string | HardhatError string | UnknownStateRoot | InvalidAccount

record account =
  nonce :: int
  balance :: int
  storageRoot :: buffer
  codeHash :: buffer

record typed_tx =
  tx_sender :: address
  tx_to :: "address option"
  tx_value :: int
  tx_data :: buffer

record block_header =
  number :: int
  coinbase :: address
  timestamp :: int
  baseFeePerGas :: "int option"
  gasLimit :: int
  gasUsed :: int
  difficulty :: "int option"
  mixHash :: "buffer option"
  stateRoot :: buffer

record block =
  header :: block_header

text \<open>The chain configuration object \<open>Common\<close>, as built by \<open>Common.custom\<close>.\<close>

record common =
  chainId :: "int option"
  networkId :: int
  hardfork :: string

subsection \<open>Results of the interpreted backend\<close>

datatype evm_error = EvmError (error_name: string)

definition ERROR_REVERT :: string where
  "ERROR_REVERT = ''revert''"

type_synonym log = "buffer \<times> buffer list \<times> buffer"

record exec_result =
  exceptionError :: "evm_error option"
  returnValue :: buffer
  executionGasUsed :: int
  gasRefund :: "int option"
  selfdestruct :: "(string \<times> buffer) list option"
  logs :: "log list option"

record evm_result =
  createdAddress :: "address option"
  execResult :: exec_result

record vm_run_tx_result = evm_result +
  bloom_bitvector :: buffer
  totalGasSpent :: int
  receipt :: buffer

text \<open>
  \<open>Exit\<close> (file \<open>exit.ts\<close>) wraps an exit code; the mapping from backend errors to exit
  codes is a parameter of the model (\<open>fromEthereumJSEvmError\<close> below).
\<close>

datatype exit = Exit (kind: nat)

text \<open>The adapter's own \<open>RunTxResult\<close> (interface file \<open>vm-adapter.ts\<close>).\<close>

record run_tx_result =
  res_bloom :: buffer
  res_createdAddress :: "address option"
  res_gasUsed :: int
  res_returnValue :: buffer
  res_exit :: exit
  res_receipt :: buffer

section \<open>The state store\<close>

text \<open>
  Modelled from the spec: the \<open>StateManager\<close> behind \<open>EthereumJSAdapter\<close>
  (\<open>DefaultStateManager\<close> or \<open>ForkStateManager\<close>), whose code is not part of the
  sources. The store holds a working world state (the account, storage and code maps) and
  every state whose root has been observed.
\<close>

record world =
  accounts :: "address \<rightharpoonup> account"
  storage :: "address \<times> buffer \<rightharpoonup> buffer"
  code :: "address \<rightharpoonup> buffer"

record state_manager =
  working :: world
  observed :: "buffer \<rightharpoonup> world"

text \<open>
  The empty account: nonce 0, balance 0, the root of the empty trie and the hash of the
  empty code.
\<close>

definition KECCAK256_RLP :: buffer where
  "KECCAK256_RLP =
    [0x56, 0xe8, 0x1f, 0x17, 0x1b, 0xcc, 0x55, 0xa6, 0xff, 0x83, 0x45, 0xe6, 0x92, 0xc0, 0xf8, 0x6e,
     0x5b, 0x48, 0xe0, 0x1b, 0x99, 0x6c, 0xad, 0xc0, 0x01, 0x62, 0x2f, 0xb5, 0xe3, 0x63, 0xb4, 0x21]"

definition KECCAK256_NULL :: buffer where
  "KECCAK256_NULL =
    [0xc5, 0xd2, 0x46, 0x01, 0x86, 0xf7, 0x23, 0x3c, 0x92, 0x7e, 0x7d, 0xb2, 0xdc, 0xc7, 0x03, 0xc0,
     0xe5, 0x00, 0xb6, 0x53, 0xca, 0x82, 0x27, 0x3b, 0x7b, 0xfa, 0xd8, 0x04, 0x5d, 0x85, 0xa4, 0x70]"

definition emptyAccount :: account where
  "emptyAccount =
    \<lparr>nonce = 0, balance = 0, storageRoot = KECCAK256_RLP, codeHash = KECCAK256_NULL\<rparr>"

text \<open>
  Modelled from the spec: \<open>getStateRoot\<close> of the state store. It returns the root of
  the working state, a function \<open>rootOf\<close> of the account, storage and code maps, and
  thereby makes it an observed root.
\<close>

definition sm_getStateRoot ::
  "(world \<Rightarrow> buffer) \<Rightarrow> state_manager \<Rightarrow> buffer \<times> state_manager" where
  "sm_getStateRoot rootOf sm =
    (let root = rootOf (working sm)
     in (root, sm\<lparr>observed := (observed sm)(root \<mapsto> working sm)\<rparr>))"

text \<open>
  Modelled from the spec: \<open>setStateRoot\<close> of the state store. It jumps the working
  state to the state observed under the given root and fails with \<open>UnknownStateRoot\<close>
  when the root was never observed.
\<close>

definition sm_setStateRoot ::
  "buffer \<Rightarrow> state_manager \<Rightarrow> (error + unit) \<times> state_manager" where
  "sm_setStateRoot root sm =
    (case observed sm root of
       None \<Rightarrow> (Inl UnknownStateRoot, sm)
     | Some w \<Rightarrow> (Inr (), sm\<lparr>working := w\<rparr>))"

text \<open>
  Modelled from the spec: \<open>getAccount\<close> and \<open>putAccount\<close> of the state store, the
  simple reader and writer of accounts. \<open>getAccount\<close> always yields an \<open>Account\<close> (its
  declared result type in the adapter interface): an address with no account reads as the
  empty account. \<open>putAccount\<close> writes the working state. A balance is an unsigned
  quantity (u256 in the data model of the spec): \<open>putAccount\<close> of an account whose
  balance is negative throws and writes nothing. The \<open>bigint\<close> of the code has no upper
  bound, and none is imposed here.
\<close>

definition sm_getAccount :: "address \<Rightarrow> state_manager \<Rightarrow> account" where
  "sm_getAccount addr sm =
    (case accounts (working sm) addr of None \<Rightarrow> emptyAccount | Some acc \<Rightarrow> acc)"

definition sm_putAccount ::
  "address \<Rightarrow> account \<Rightarrow> state_manager \<Rightarrow> error + state_manager" where
  "sm_putAccount addr acc sm =
    (if balance acc < 0 then Inl InvalidAccount
     else Inr (sm\<lparr>working :=
                 (working sm)\<lparr>accounts := (accounts (working sm))(addr \<mapsto> acc)\<rparr>\<rparr>))"

section \<open>The interpreted backend as a parameter\<close>

text \<open>
  The libraries behind \<open>EthereumJSAdapter\<close> are parameters of the model:
  \<^item> \<open>runTx\<close> is \<open>VM.runTx\<close>: given its options, the chain configuration the VM holds at
    the time of the call (\<open>_vm._common\<close>) and the working state, it throws or returns a
    result (possibly \<open>undefined\<close>, which the adapter asserts against), and leaves a
    working state behind in either case; it writes the working state only, so the roots
    the store has observed stay observed;
  \<^item> \<open>fromBlockData\<close> is \<open>Block.fromBlockData\<close>, given the block and the \<open>common\<close>
    option: it returns the rebuilt block or throws (as it does for a header that carries
    a base fee under a configuration in which EIP-1559 is not active);
  \<^item> \<open>stateRootOf\<close> is the root function of the state store;
  \<^item> \<open>hardforkGteHardfork\<close> is the hardfork order of \<open>Common\<close>;
  \<^item> \<open>fromEthereumJSEvmError\<close> is \<open>Exit.fromEthereumJSEvmError\<close> and
    \<open>getRethnetExceptionalHalt\<close> the method of \<open>Exit\<close> of that name (file \<open>exit.ts\<close>);
    either may throw.
  An option of \<open>runTx\<close> that the caller leaves out is \<open>False\<close>.
\<close>

record run_tx_opts =
  block :: block
  tx :: typed_tx
  skipNonce :: bool
  skipBalance :: bool
  skipBlockGasLimitValidation :: bool

record vm_backend =
  runTx :: "run_tx_opts \<Rightarrow> common \<Rightarrow> world \<Rightarrow> (error + vm_run_tx_result option) \<times> world"
  fromBlockData :: "block \<Rightarrow> common \<Rightarrow> error + block"
  stateRootOf :: "world \<Rightarrow> buffer"
  hardforkGteHardfork :: "string \<Rightarrow> string \<Rightarrow> bool"
  fromEthereumJSEvmError :: "evm_error option \<Rightarrow> error + exit"
  getRethnetExceptionalHalt :: "exit \<Rightarrow> error + nat"

section \<open>EthereumJSAdapter\<close>

text \<open>
  The fields of the class: \<open>vm_common\<close> is the mutable \<open>_vm._common\<close>, \<open>adapter_common\<close>
  the adapter's own \<open>_common\<close>; the others carry the names of the source without the
  leading underscore.
\<close>

record ethereumjs_adapter =
  vm_common :: common
  stateManager :: state_manager
  adapter_common :: common
  configNetworkId :: int
  configChainId :: int
  selectHardfork :: "int \<Rightarrow> string"
  forkNetworkId :: "int option"
  forkBlockNumber :: "int option"
  blockStartStateRoot :: "buffer option"

datatype block_tag = BlockNumber int | Pending

definition EthereumJS_getStateRoot ::
  "vm_backend \<Rightarrow> ethereumjs_adapter \<Rightarrow> buffer \<times> ethereumjs_adapter" where
  "EthereumJS_getStateRoot be a =
    (let (root, sm) = sm_getStateRoot (stateRootOf be) (stateManager a)
     in (root, a\<lparr>stateManager := sm\<rparr>))"

definition gteHardfork :: "vm_backend \<Rightarrow> common \<Rightarrow> string \<Rightarrow> bool" where
  "gteHardfork be c hf = hardforkGteHardfork be (hardfork c) hf"

fun isEip1559Active :: "vm_backend \<Rightarrow> ethereumjs_adapter \<Rightarrow> block_tag option \<Rightarrow> bool" where
  "isEip1559Active be a (Some (BlockNumber n)) =
     hardforkGteHardfork be (selectHardfork a n) ''london''"
| "isEip1559Active be a _ = gteHardfork be (adapter_common a) ''london''"

text \<open>
  The conversion of the backend's result, shared by \<open>dryRun\<close> and \<open>runTxInBlock\<close>:
  the assertion that there is a result, then the fields of \<open>RunTxResult\<close>.
\<close>

definition toRunTxResult ::
  "vm_backend \<Rightarrow> error + vm_run_tx_result option \<Rightarrow> error + run_tx_result" where
  "toRunTxResult be outcome =
    (case outcome of
       Inl e \<Rightarrow> Inl e
     | Inr None \<Rightarrow> Inl (HardhatError ''Should have a result'')
     | Inr (Some r) \<Rightarrow>
         (case fromEthereumJSEvmError be (exceptionError (execResult r)) of
            Inl e \<Rightarrow> Inl e
          | Inr ex \<Rightarrow>
              Inr \<lparr>res_bloom = bloom_bitvector r,
                   res_createdAddress = createdAddress r,
                   res_gasUsed = totalGasSpent r,
                   res_returnValue = returnValue (execResult r),
                   res_exit = ex,
                   res_receipt = receipt r\<rparr>))"

text \<open>
  The block \<open>dryRun\<close> executes against (lines 147 to 159 of the source): when the test
  holds, the block context is rebuilt by \<open>Block.fromBlockData\<close> under the adapter's own
  \<open>_common\<close>, which may throw, and the base fee of the rebuilt block is set to 0.
\<close>

definition dryRunBlock ::
  "vm_backend \<Rightarrow> ethereumjs_adapter \<Rightarrow> block \<Rightarrow> bool \<Rightarrow> error + block" where
  "dryRunBlock be a blockContext forceBaseFeeZero =
    (if isEip1559Active be a (Some (BlockNumber (number (header blockContext)))) \<and>
        (baseFeePerGas (header blockContext) = None \<or> forceBaseFeeZero)
     then
       (case fromBlockData be blockContext (adapter_common a) of
          Inl e \<Rightarrow> Inl e
        | Inr rebuilt \<Rightarrow> Inr (rebuilt\<lparr>header := (header rebuilt)\<lparr>baseFeePerGas := Some 0\<rparr>\<rparr>))
     else Inr blockContext)"

text \<open>The configuration \<open>dryRun\<close> installs (\<open>Common.custom\<close>, lines 163 to 175).\<close>

definition dryRunCommon :: "ethereumjs_adapter \<Rightarrow> block \<Rightarrow> common" where
  "dryRunCommon a blockContext =
    \<lparr>chainId =
       (case forkBlockNumber a of
          None \<Rightarrow> Some (configChainId a)
        | Some forkBlock \<Rightarrow>
            if forkBlock \<le> number (header blockContext) then Some (configChainId a)
            else forkNetworkId a),
     networkId = (case forkNetworkId a of Some n \<Rightarrow> n | None \<Rightarrow> configNetworkId a),
     hardfork = selectHardfork a (number (header blockContext))\<rparr>"

text \<open>
  The body of the \<open>try\<close> of \<open>dryRun\<close>. It yields the outcome, the configuration saved
  in \<open>originalCommon\<close> (\<open>undefined\<close> when the body threw before saving it) and the
  adapter it leaves. The configuration is computed from the number of the block context
  after its replacement.
\<close>

definition dryRunTry ::
  "vm_backend \<Rightarrow> typed_tx \<Rightarrow> block \<Rightarrow> bool \<Rightarrow> ethereumjs_adapter
     \<Rightarrow> (error + run_tx_result) \<times> common option \<times> ethereumjs_adapter" where
  "dryRunTry be t blockContext forceBaseFeeZero a1 =
    (case dryRunBlock be a1 blockContext forceBaseFeeZero of
       Inl e \<Rightarrow> (Inl e, None, a1)
     | Inr blockContext' \<Rightarrow>
         (let originalCommon = Some (vm_common a1);
              a2 = a1\<lparr>vm_common := dryRunCommon a1 blockContext'\<rparr>;
              (outcome, w) =
                runTx be
                  \<lparr>block = blockContext', tx = t, skipNonce = True, skipBalance = True,
                   skipBlockGasLimitValidation = True\<rparr>
                  (vm_common a2) (working (stateManager a2));
              a3 = a2\<lparr>stateManager := (stateManager a2)\<lparr>working := w\<rparr>\<rparr>
          in (toRunTxResult be outcome, originalCommon, a3)))"

text \<open>
  \<open>dryRun\<close>: the state root is read on entry; then the body of the \<open>try\<close>; the
  \<open>finally\<close> puts the original configuration back when one was saved and sets the state
  root read on entry. An exception of the \<open>finally\<close> replaces the outcome of the body.
\<close>

definition EthereumJS_dryRun ::
  "vm_backend \<Rightarrow> typed_tx \<Rightarrow> block \<Rightarrow> bool \<Rightarrow> ethereumjs_adapter
     \<Rightarrow> (error + run_tx_result) \<times> ethereumjs_adapter" where
  "EthereumJS_dryRun be t blockContext forceBaseFeeZero a =
    (let (initialStateRoot, a1) = EthereumJS_getStateRoot be a;
         (result, originalCommon, a3) = dryRunTry be t blockContext forceBaseFeeZero a1;
         a4 = (case originalCommon of None \<Rightarrow> a3 | Some c \<Rightarrow> a3\<lparr>vm_common := c\<rparr>);
         (restored, sm) = sm_setStateRoot initialStateRoot (stateManager a4)
     in ((case restored of Inl e \<Rightarrow> Inl e | Inr _ \<Rightarrow> result), a4\<lparr>stateManager := sm\<rparr>))"

subsection \<open>The in-block cycle\<close>

definition EthereumJS_startBlock ::
  "vm_backend \<Rightarrow> ethereumjs_adapter \<Rightarrow> (error + unit) \<times> ethereumjs_adapter" where
  "EthereumJS_startBlock be a =
    (if blockStartStateRoot a \<noteq> None then (Inl (Error ''a block is already started''), a)
     else
       (let (root, a1) = EthereumJS_getStateRoot be a
        in (Inr (), a1\<lparr>blockStartStateRoot := Some root\<rparr>)))"

definition EthereumJS_runTxInBlock ::
  "vm_backend \<Rightarrow> typed_tx \<Rightarrow> block \<Rightarrow> ethereumjs_adapter
     \<Rightarrow> (error + run_tx_result) \<times> ethereumjs_adapter" where
  "EthereumJS_runTxInBlock be t blk a =
    (let (outcome, w) =
           runTx be
             \<lparr>block = blk, tx = t, skipNonce = False, skipBalance = False,
              skipBlockGasLimitValidation = False\<rparr>
             (vm_common a) (working (stateManager a));
         a1 = a\<lparr>stateManager := (stateManager a)\<lparr>working := w\<rparr>\<rparr>
     in (toRunTxResult be outcome, a1))"

fun EthereumJS_addBlockRewards ::
  "(address \<times> int) list \<Rightarrow> ethereumjs_adapter \<Rightarrow> (error + unit) \<times> ethereumjs_adapter" where
  "EthereumJS_addBlockRewards [] a = (Inr (), a)"
| "EthereumJS_addBlockRewards ((address, reward) # rewards) a =
    (let account = sm_getAccount address (stateManager a);
         account' = account\<lparr>balance := balance account + reward\<rparr>
     in case sm_putAccount address account' (stateManager a) of
          Inl e \<Rightarrow> (Inl e, a)
        | Inr sm \<Rightarrow> EthereumJS_addBlockRewards rewards (a\<lparr>stateManager := sm\<rparr>))"

definition EthereumJS_sealBlock ::
  "ethereumjs_adapter \<Rightarrow> (error + unit) \<times> ethereumjs_adapter" where
  "EthereumJS_sealBlock a =
    (if blockStartStateRoot a = None
     then (Inl (Error ''Cannot seal a block that wasn't started''), a)
     else (Inr (), a\<lparr>blockStartStateRoot := None\<rparr>))"

definition EthereumJS_revertBlock ::
  "ethereumjs_adapter \<Rightarrow> (error + unit) \<times> ethereumjs_adapter" where
  "EthereumJS_revertBlock a =
    (case blockStartStateRoot a of
       None \<Rightarrow> (Inl (Error ''Cannot revert a block that wasn't started''), a)
     | Some root \<Rightarrow>
         (case sm_setStateRoot root (stateManager a) of
            (Inl e, sm) \<Rightarrow> (Inl e, a\<lparr>stateManager := sm\<rparr>)
          | (Inr _, sm) \<Rightarrow> (Inr (), a\<lparr>stateManager := sm, blockStartStateRoot := None\<rparr>)))"

text \<open>
  The transactions of a block, run one after the other. A transaction on which the
  backend throws leaves the state the backend left; the next call runs on it.
\<close>

fun runTxsInBlock ::
  "vm_backend \<Rightarrow> (typed_tx \<times> block) list \<Rightarrow> ethereumjs_adapter \<Rightarrow> ethereumjs_adapter" where
  "runTxsInBlock be [] a = a"
| "runTxsInBlock be ((t, blk) # rest) a =
     runTxsInBlock be rest (snd (EthereumJS_runTxInBlock be t blk a))"

subsection \<open>The after-message handler\<close>

datatype success_reason = Stop | Return | SelfDestruct

record tracing_log =
  log_address :: buffer
  log_topics :: "buffer list"
  log_data :: buffer

datatype result_output = CallOutput buffer | CreateOutput buffer buffer

datatype execution_result =
    SuccessResult (reason: success_reason) int int "tracing_log list" result_output
  | RevertResult int buffer
  | HaltResult nat int

text \<open>
  The \<open>selfdestruct\<close> field of the backend is an object from address strings to
  beneficiaries, here an association list; \<open>Object.keys\<close> lists each key once.
\<close>

definition Object_keys :: "(string \<times> 'v) list \<Rightarrow> string list" where
  "Object_keys obj = remdups (map fst obj)"

text \<open>
  The \<open>executionResult\<close> that \<open>_afterMessageHandler\<close> builds from the backend's
  \<open>EVMResult\<close> and hands to the tracers. \<open>CreateOutput rv addr\<close> is the output with an
  address, \<open>CallOutput rv\<close> the one without.
\<close>

definition executionResult :: "vm_backend \<Rightarrow> evm_result \<Rightarrow> error + execution_result" where
  "executionResult be result =
    (let gasUsed' = executionGasUsed (execResult result)
     in case exceptionError (execResult result) of
          None \<Rightarrow>
            (let reason' =
               (if (case selfdestruct (execResult result) of
                      None \<Rightarrow> False
                    | Some sd \<Rightarrow> 0 < length (Object_keys sd))
                then SelfDestruct
                else if createdAddress result \<noteq> None \<or>
                        0 < length (returnValue (execResult result))
                then Return
                else Stop)
             in Inr (SuccessResult reason' gasUsed'
                  (case gasRefund (execResult result) of None \<Rightarrow> 0 | Some g \<Rightarrow> g)
                  (case logs (execResult result) of
                     None \<Rightarrow> []
                   | Some ls \<Rightarrow>
                       map (\<lambda>(a, ts, d). \<lparr>log_address = a, log_topics = ts, log_data = d\<rparr>) ls)
                  (case createdAddress result of
                     None \<Rightarrow> CallOutput (returnValue (execResult result))
                   | Some addr \<Rightarrow> CreateOutput (returnValue (execResult result)) addr)))
        | Some err \<Rightarrow>
            if error_name err = ERROR_REVERT
            then Inr (RevertResult gasUsed' (returnValue (execResult result)))
            else
              (case fromEthereumJSEvmError be (Some err) of
                 Inl e \<Rightarrow> Inl e
               | Inr vmError \<Rightarrow>
                   (case getRethnetExceptionalHalt be vmError of
                      Inl e \<Rightarrow> Inl e
                    | Inr halt \<Rightarrow> Inr (HaltResult halt gasUsed'))))"

section \<open>RethnetAdapter\<close>

text \<open>
  The native backend and the helpers of files that are not part of the sources are
  parameters. The adapter and the backend share the state \<open>'s\<close>, so a call of the
  backend takes the state and hands back the state it leaves:
  \<^item> \<open>guaranteedDryRun\<close> of \<open>Rethnet\<close> throws or returns a result whose \<open>execResult\<close>
    the adapter converts;
  \<^item> \<open>blockBuilderFinalize\<close> is \<open>BlockBuilder.new\<close> over the state with the given
    header, followed by \<open>finalize\<close> with the given rewards;
  \<^item> \<open>rethnetStateRootOf\<close> is \<open>getStateRoot\<close> of \<open>RethnetStateManager\<close>;
  \<^item> \<open>ethereumjsTransactionToRethnet\<close> and \<open>rethnetResultToRunTxResult\<close> are those of
    \<open>convertToRethnet.ts\<close> (the second is called inside a \<open>try\<close> and may throw);
  \<^item> \<open>hardforkGte\<close> and the name \<open>HardforkName.MERGE\<close> are those of \<open>hardforks.ts\<close>.
\<close>

record rethnet_block_config =
  env_number :: int
  env_coinbase :: buffer
  env_timestamp :: int
  env_basefee :: "int option"
  env_gasLimit :: int
  env_difficulty :: "int option"
  env_prevrandao :: "buffer option"

record builder_header =
  bh_parentHash :: buffer
  bh_ommersHash :: buffer
  bh_beneficiary :: buffer
  bh_stateRoot :: buffer
  bh_transactionsRoot :: buffer
  bh_receiptsRoot :: buffer
  bh_logsBloom :: buffer
  bh_difficulty :: int
  bh_number :: int
  bh_gasLimit :: int
  bh_gasUsed :: int
  bh_timestamp :: int
  bh_extraData :: buffer
  bh_mixHash :: buffer
  bh_nonce :: int

record 'e transaction_result =
  tr_execResult :: 'e

record ('s, 't, 'e) rethnet_backend =
  guaranteedDryRun ::
    "'t \<Rightarrow> rethnet_block_config \<Rightarrow> 's \<Rightarrow> (error + 'e transaction_result) \<times> 's"
  blockBuilderFinalize :: "builder_header \<Rightarrow> (buffer \<times> int) list \<Rightarrow> 's \<Rightarrow> (error + unit) \<times> 's"
  rethnetStateRootOf :: "'s \<Rightarrow> buffer"
  ethereumjsTransactionToRethnet :: "typed_tx \<Rightarrow> 't"
  rethnetResultToRunTxResult :: "'e \<Rightarrow> int \<Rightarrow> error + run_tx_result"
  hardforkGte :: "string \<Rightarrow> string \<Rightarrow> bool"
  HardforkName_MERGE :: string

record 's rethnet_adapter =
  rn_state :: 's
  rn_selectHardfork :: "int \<Rightarrow> string"


definition getBlockEnvDifficulty :: "int option \<Rightarrow> int option" where
  "getBlockEnvDifficulty difficulty' =
    (let MAX_DIFFICULTY = 2 ^ 32 - 1
     in case difficulty' of
          None \<Rightarrow> None
        | Some d \<Rightarrow> if MAX_DIFFICULTY < d then Some MAX_DIFFICULTY else Some d)"

definition getBlockPrevRandao ::
  "('s, 't, 'e) rethnet_backend \<Rightarrow> 's rethnet_adapter \<Rightarrow> int \<Rightarrow> buffer option
     \<Rightarrow> error + buffer option" where
  "getBlockPrevRandao rb a blockNumber mixHash' =
    (let hardfork' = rn_selectHardfork a blockNumber;
         isPostMergeHardfork = hardforkGte rb hardfork' (HardforkName_MERGE rb)
     in if isPostMergeHardfork
        then (case mixHash' of
                None \<Rightarrow> Inl (Error ''mixHash must be set for post-merge hardfork'')
              | Some h \<Rightarrow> Inr (Some h))
        else Inr None)"

text \<open>
  The block configuration \<open>dryRun\<close> hands to \<open>guaranteedDryRun\<close> (lines 111 to 120); the
  optional parameter \<open>forceBaseFeeZero\<close> is compared with \<open>true\<close>.
\<close>

definition dryRunBlockConfig ::
  "block \<Rightarrow> bool option \<Rightarrow> int option \<Rightarrow> buffer option \<Rightarrow> rethnet_block_config" where
  "dryRunBlockConfig blockContext forceBaseFeeZero difficulty' prevRandao =
    \<lparr>env_number = number (header blockContext),
     env_coinbase = coinbase (header blockContext),
     env_timestamp = timestamp (header blockContext),
     env_basefee =
       (if forceBaseFeeZero = Some True then Some 0 else baseFeePerGas (header blockContext)),
     env_gasLimit = gasLimit (header blockContext),
     env_difficulty = difficulty',
     env_prevrandao = prevRandao\<rparr>"

text \<open>
  \<open>dryRun\<close> reads no state root and has no \<open>finally\<close>: the state after it is the state
  the backend call left.
\<close>

definition Rethnet_dryRun ::
  "('s, 't, 'e) rethnet_backend \<Rightarrow> typed_tx \<Rightarrow> block \<Rightarrow> bool option \<Rightarrow> 's rethnet_adapter
     \<Rightarrow> (error + run_tx_result) \<times> 's rethnet_adapter" where
  "Rethnet_dryRun rb t blockContext forceBaseFeeZero a =
    (let rethnetTx = ethereumjsTransactionToRethnet rb t;
         difficulty' = getBlockEnvDifficulty (difficulty (header blockContext))
     in case getBlockPrevRandao rb a (number (header blockContext))
               (mixHash (header blockContext)) of
          Inl e \<Rightarrow> (Inl e, a)
        | Inr prevRandao \<Rightarrow>
            (case guaranteedDryRun rb rethnetTx
                    (dryRunBlockConfig blockContext forceBaseFeeZero difficulty' prevRandao)
                    (rn_state a) of
               (Inl e, s) \<Rightarrow> (Inl e, a\<lparr>rn_state := s\<rparr>)
             | (Inr rethnetResult, s) \<Rightarrow>
                 (rethnetResultToRunTxResult rb (tr_execResult rethnetResult)
                    (gasUsed (header blockContext)), a\<lparr>rn_state := s\<rparr>)))"



definition Rethnet_sealBlock :: "'s rethnet_adapter \<Rightarrow> (error + unit) \<times> 's rethnet_adapter" where
  "Rethnet_sealBlock a = (Inr (), a)"

definition Rethnet_isWarmedAddress ::
  "'s rethnet_adapter \<Rightarrow> buffer \<Rightarrow> (error + bool) \<times> 's rethnet_adapter" where
  "Rethnet_isWarmedAddress a address' = (Inr True, a)"

section \<open>A concrete backend and concrete adapters\<close>

text \<open>
  An instance of the parameters, on which the theorems below are exercised: a backend
  that executes plain value transfers, a stand-in root function that lists the balances
  of three addresses, and the hardfork order by position in a list of names.
\<close>

definition addrA :: address where
  "addrA = [0, 0, 0, 0, 0, 0, 0, 0, 0, 0, 0, 0, 0, 0, 0, 0, 0, 0, 0, 0xA]"

definition addrB :: address where
  "addrB = [0, 0, 0, 0, 0, 0, 0, 0, 0, 0, 0, 0, 0, 0, 0, 0, 0, 0, 0, 0xB]"

definition addrC :: address where
  "addrC = [0, 0, 0, 0, 0, 0, 0, 0, 0, 0, 0, 0, 0, 0, 0, 0, 0, 0, 0, 0xC]"

definition accountOf :: "world \<Rightarrow> address \<Rightarrow> account" where
  "accountOf w addr = (case accounts w addr of None \<Rightarrow> emptyAccount | Some acc \<Rightarrow> acc)"

definition exampleRootOf :: "world \<Rightarrow> buffer" where
  "exampleRootOf w = map (\<lambda>addr. word_of_int (balance (accountOf w addr))) [addrA, addrB, addrC]"

definition transferResult :: vm_run_tx_result where
  "transferResult =
    \<lparr>createdAddress = None,
     execResult =
       \<lparr>exceptionError = None, returnValue = [], executionGasUsed = 0, gasRefund = None,
        selfdestruct = None, logs = None\<rparr>,
     bloom_bitvector = [], totalGasSpent = 21000, receipt = []\<rparr>"

definition transferRunTx ::
  "run_tx_opts \<Rightarrow> common \<Rightarrow> world \<Rightarrow> (error + vm_run_tx_result option) \<times> world" where
  "transferRunTx opts c w =
    (case tx_to (tx opts) of
       None \<Rightarrow> (Inl (Error ''contract creation is not supported''), w)
     | Some recipient \<Rightarrow>
         (let sender = accountOf w (tx_sender (tx opts));
              amount = tx_value (tx opts)
          in if \<not> skipBalance opts \<and> balance sender < amount
             then (Inl (Error ''sender doesn't have enough funds''), w)
             else
               (let w1 = w\<lparr>accounts := (accounts w)(tx_sender (tx opts) \<mapsto>
                           sender\<lparr>balance := balance sender - amount,
                                  nonce := nonce sender + 1\<rparr>)\<rparr>;
                    receiver = accountOf w1 recipient;
                    w2 = w1\<lparr>accounts := (accounts w1)(recipient \<mapsto>
                           receiver\<lparr>balance := balance receiver + amount\<rparr>)\<rparr>
                in (Inr (Some transferResult), w2))))"

primrec lastIndexFrom :: "int \<Rightarrow> string list \<Rightarrow> string \<Rightarrow> int \<Rightarrow> int" where
  "lastIndexFrom i [] x found = found"
| "lastIndexFrom i (y # ys) x found = lastIndexFrom (i + 1) ys x (if y = x then i else found)"

definition exampleHardforkOrder :: "string list" where
  "exampleHardforkOrder = [''istanbul'', ''berlin'', ''london'', ''arrowGlacier'', ''merge'']"

definition orderHardforkGte :: "string \<Rightarrow> string \<Rightarrow> bool" where
  "orderHardforkGte hardforkA hardforkB =
    (lastIndexFrom 0 exampleHardforkOrder hardforkB (- 1) \<le>
     lastIndexFrom 0 exampleHardforkOrder hardforkA (- 1))"

definition exampleExit :: "evm_error option \<Rightarrow> error + exit" where
  "exampleExit e =
    (case e of
       None \<Rightarrow> Inr (Exit 0)
     | Some err \<Rightarrow>
         if error_name err = ERROR_REVERT then Inr (Exit 1)
         else if error_name err = ''out of gas'' then Inr (Exit 2)
         else Inl (Error ''Unmatched EVM error''))"

definition exampleHalt :: "exit \<Rightarrow> error + nat" where
  "exampleHalt ex = (if kind ex = 2 then Inr 0 else Inl (Error ''not an exceptional halt''))"

definition exampleFromBlockData :: "block \<Rightarrow> common \<Rightarrow> error + block" where
  "exampleFromBlockData blk c =
    (if baseFeePerGas (header blk) \<noteq> None \<and> \<not> orderHardforkGte (hardfork c) ''london''
     then Inl (Error ''A base fee for a block can only be set with EIP1559 being activated'')
     else Inr blk)"

definition exampleBackend :: vm_backend where
  "exampleBackend =
    \<lparr>runTx = transferRunTx, fromBlockData = exampleFromBlockData, stateRootOf = exampleRootOf,
     hardforkGteHardfork = orderHardforkGte, fromEthereumJSEvmError = exampleExit,
     getRethnetExceptionalHalt = exampleHalt\<rparr>"

definition exampleWorld :: world where
  "exampleWorld =
    \<lparr>accounts = [addrA \<mapsto> emptyAccount\<lparr>balance := 100\<rparr>],
     storage = Map.empty, code = Map.empty\<rparr>"

definition exampleCommon :: common where
  "exampleCommon = \<lparr>chainId = Some 31337, networkId = 31337, hardfork = ''london''\<rparr>"

definition exampleHardforks :: "int \<Rightarrow> string" where
  "exampleHardforks n = (if n < 10 then ''berlin'' else if n < 20 then ''london'' else ''merge'')"

definition exampleAdapter :: ethereumjs_adapter where
  "exampleAdapter =
    \<lparr>vm_common = exampleCommon,
     stateManager = \<lparr>working = exampleWorld, observed = Map.empty\<rparr>,
     adapter_common = exampleCommon,
     configNetworkId = 31337, configChainId = 31337,
     selectHardfork = exampleHardforks,
     forkNetworkId = None, forkBlockNumber = None,
     blockStartStateRoot = None\<rparr>"

definition exampleHeader :: block_header where
  "exampleHeader =
    \<lparr>number = 12, coinbase = addrC, timestamp = 1700000000, baseFeePerGas = Some 7,
     gasLimit = 30000000, gasUsed = 0, difficulty = Some 1, mixHash = None,
     stateRoot = []\<rparr>"

definition exampleBlock :: block where
  "exampleBlock = \<lparr>header = exampleHeader\<rparr>"

definition txAB :: typed_tx where
  "txAB = \<lparr>tx_sender = addrA, tx_to = Some addrB, tx_value = 1, tx_data = []\<rparr>"

definition txAC :: typed_tx where
  "txAC = \<lparr>tx_sender = addrA, tx_to = Some addrC, tx_value = 2, tx_data = []\<rparr>"

definition transferRunTxResult :: run_tx_result where
  "transferRunTxResult =
    \<lparr>res_bloom = [], res_createdAddress = None, res_gasUsed = 21000, res_returnValue = [],
     res_exit = Exit 0, res_receipt = []\<rparr>"

text \<open>
  A native backend that reports the base fee and the \<open>prevrandao\<close> it was given and
  writes nothing, and an adapter over a state of no content.
\<close>

definition echoBackend :: "(unit, typed_tx, rethnet_block_config) rethnet_backend" where
  "echoBackend =
    \<lparr>guaranteedDryRun = (\<lambda>t env s. (Inr \<lparr>tr_execResult = env\<rparr>, s)),
     blockBuilderFinalize = (\<lambda>h rewards s. (Inr (), s)),
     rethnetStateRootOf = (\<lambda>s. []),
     ethereumjsTransactionToRethnet = (\<lambda>t. t),
     rethnetResultToRunTxResult =
       (\<lambda>env used.
          Inr \<lparr>res_bloom = [], res_createdAddress = None,
               res_gasUsed = (case env_basefee env of None \<Rightarrow> - 1 | Some fee \<Rightarrow> fee),
               res_returnValue = (case env_prevrandao env of None \<Rightarrow> [] | Some r \<Rightarrow> r),
               res_exit = Exit 0, res_receipt = []\<rparr>),
     hardforkGte = orderHardforkGte,
     HardforkName_MERGE = ''merge''\<rparr>"

definition exampleRethnetAdapter :: "unit rethnet_adapter" where
  "exampleRethnetAdapter = \<lparr>rn_state = (), rn_selectHardfork = exampleHardforks\<rparr>"



text \<open>Further inputs: an adapter with a block open, a forked adapter, blocks and results.\<close>

definition openAdapter :: ethereumjs_adapter where
  "openAdapter = exampleAdapter\<lparr>blockStartStateRoot := Some [100, 0, 0]\<rparr>"

definition forkedAdapter :: ethereumjs_adapter where
  "forkedAdapter = exampleAdapter\<lparr>forkNetworkId := Some 1, forkBlockNumber := Some 10\<rparr>"

definition txCreate :: typed_tx where
  "txCreate = \<lparr>tx_sender = addrA, tx_to = None, tx_value = 0, tx_data = [0x60]\<rparr>"

definition selfDestructResult :: evm_result where
  "selfDestructResult =
    \<lparr>createdAddress = None,
     execResult =
       \<lparr>exceptionError = None, returnValue = [1], executionGasUsed = 5000, gasRefund = None,
        selfdestruct = Some [(''0x0b'', addrB)], logs = None\<rparr>\<rparr>"

definition berlinCommonAdapter :: ethereumjs_adapter where
  "berlinCommonAdapter =
    exampleAdapter\<lparr>adapter_common := exampleCommon\<lparr>hardfork := ''berlin''\<rparr>\<rparr>"


definition preLondonBlock :: block where
  "preLondonBlock = \<lparr>header = exampleHeader\<lparr>number := 5\<rparr>\<rparr>"

definition mergeBlock :: block where
  "mergeBlock = \<lparr>header = exampleHeader\<lparr>number := 25, mixHash := Some [0x11, 0x11]\<rparr>\<rparr>"

definition mergeBlockNoMixHash :: block where
  "mergeBlockNoMixHash = \<lparr>header = exampleHeader\<lparr>number := 25\<rparr>\<rparr>"


definition exampleTxs :: "(typed_tx \<times> block) list" where
  "exampleTxs = [(txAB, exampleBlock), (txAC, exampleBlock)]"

section \<open>Facts about the model\<close>

lemma addr_neq: "addrA \<noteq> addrB" "addrA \<noteq> addrC" "addrB \<noteq> addrC"
  by (simp_all add: addrA_def addrB_def addrC_def)

lemma getStateRoot_fst:
  "fst (EthereumJS_getStateRoot be a) = stateRootOf be (working (stateManager a))"
  by (simp add: EthereumJS_getStateRoot_def sm_getStateRoot_def Let_def)

lemma getStateRoot_snd:
  "snd (EthereumJS_getStateRoot be a) =
     a\<lparr>stateManager := (stateManager a)\<lparr>observed :=
          (observed (stateManager a))
            (stateRootOf be (working (stateManager a)) \<mapsto> working (stateManager a))\<rparr>\<rparr>"
  by (simp add: EthereumJS_getStateRoot_def sm_getStateRoot_def Let_def)

lemma isEip1559Active_stateManager [simp]:
  "isEip1559Active be (a\<lparr>stateManager := sm\<rparr>) tag = isEip1559Active be a tag"
  by (cases "(be, a, tag)" rule: isEip1559Active.cases) simp_all

lemma dryRunBlock_stateManager [simp]:
  "dryRunBlock be (a\<lparr>stateManager := sm\<rparr>) blockContext fbz = dryRunBlock be a blockContext fbz"
  by (auto simp: dryRunBlock_def)

lemma dryRunCommon_stateManager [simp]:
  "dryRunCommon (a\<lparr>stateManager := sm\<rparr>) blockContext = dryRunCommon a blockContext"
  by (simp add: dryRunCommon_def split: option.splits)

lemma dryRunCommon_baseFee [simp]:
  "dryRunCommon a (blk\<lparr>header := (header blk)\<lparr>baseFeePerGas := fee\<rparr>\<rparr>) = dryRunCommon a blk"
  by (simp add: dryRunCommon_def split: option.splits)

lemma dryRunBlock_cases:
  "dryRunBlock be a blockContext fbz =
     (if hardforkGteHardfork be (selectHardfork a (number (header blockContext))) ''london'' \<and>
         (baseFeePerGas (header blockContext) = None \<or> fbz)
      then
        (case fromBlockData be blockContext (adapter_common a) of
           Inl e \<Rightarrow> Inl e
         | Inr rebuilt \<Rightarrow> Inr (rebuilt\<lparr>header := (header rebuilt)\<lparr>baseFeePerGas := Some 0\<rparr>\<rparr>))
      else Inr blockContext)"
  by (simp only: dryRunBlock_def isEip1559Active.simps)

text \<open>
  What \<open>dryRun\<close> returns: the error of the block rebuild when that throws, and otherwise
  the converted outcome of the one backend call, whose arguments are the block executed
  against, the skips, the substituted configuration and the working state at entry.
\<close>

lemma dryRun_outcome:
  "fst (EthereumJS_dryRun be t blockContext fbz a) =
     (case dryRunBlock be a blockContext fbz of
        Inl e \<Rightarrow> Inl e
      | Inr executed \<Rightarrow>
          toRunTxResult be
            (fst (runTx be
               \<lparr>block = executed, tx = t, skipNonce = True, skipBalance = True,
                skipBlockGasLimitValidation = True\<rparr>
               (dryRunCommon a executed)
               (working (stateManager a)))))"
  by (simp add: EthereumJS_dryRun_def dryRunTry_def EthereumJS_getStateRoot_def
      sm_getStateRoot_def sm_setStateRoot_def Let_def split: prod.splits sum.splits)

lemma runTxInBlock_frame:
  "blockStartStateRoot (snd (EthereumJS_runTxInBlock be t blk a)) = blockStartStateRoot a"
  "observed (stateManager (snd (EthereumJS_runTxInBlock be t blk a))) = observed (stateManager a)"
  "vm_common (snd (EthereumJS_runTxInBlock be t blk a)) = vm_common a"
  by (simp_all add: EthereumJS_runTxInBlock_def Let_def split: prod.splits)

lemma runTxsInBlock_frame:
  "blockStartStateRoot (runTxsInBlock be txs a) = blockStartStateRoot a \<and>
   observed (stateManager (runTxsInBlock be txs a)) = observed (stateManager a) \<and>
   vm_common (runTxsInBlock be txs a) = vm_common a"
proof (induction txs arbitrary: a)
  case Nil
  show ?case by simp
next
  case (Cons p txs)
  obtain t blk where p: "p = (t, blk)" by (cases p)
  show ?case
    unfolding p runTxsInBlock.simps
    using Cons.IH [of "snd (EthereumJS_runTxInBlock be t blk a)"]
    by (simp add: runTxInBlock_frame)
qed

lemma startBlock_ok:
  assumes "blockStartStateRoot a = None"
  shows "EthereumJS_startBlock be a =
    (Inr (), (snd (EthereumJS_getStateRoot be a))
       \<lparr>blockStartStateRoot := Some (stateRootOf be (working (stateManager a)))\<rparr>)"
  using assms
  by (simp add: EthereumJS_startBlock_def EthereumJS_getStateRoot_def sm_getStateRoot_def Let_def)

text \<open>The two transfers of the example block do write the state: the root moves.\<close>

lemma example_block_writes:
  "fst (EthereumJS_getStateRoot exampleBackend
     (runTxsInBlock exampleBackend exampleTxs
        (snd (EthereumJS_startBlock exampleBackend exampleAdapter)))) = [97, 1, 2] \<and>
   fst (EthereumJS_getStateRoot exampleBackend exampleAdapter) = [100, 0, 0]"
  by (simp add: getStateRoot_fst getStateRoot_snd startBlock_ok EthereumJS_runTxInBlock_def
      exampleAdapter_def exampleBackend_def transferRunTx_def txAB_def txAC_def accountOf_def
      exampleWorld_def exampleRootOf_def emptyAccount_def addr_neq addr_neq [symmetric] Let_def
      exampleTxs_def)

lemma Rethnet_dryRun_outcome:
  assumes "getBlockPrevRandao rb ra (number (header blockContext))
             (mixHash (header blockContext)) = Inr prevRandao"
  shows "Rethnet_dryRun rb t blockContext force ra =
     ((case fst (guaranteedDryRun rb (ethereumjsTransactionToRethnet rb t)
              (dryRunBlockConfig blockContext force
                 (getBlockEnvDifficulty (difficulty (header blockContext))) prevRandao)
              (rn_state ra)) of
         Inl e \<Rightarrow> Inl e
       | Inr rethnetResult \<Rightarrow>
           rethnetResultToRunTxResult rb (tr_execResult rethnetResult)
             (gasUsed (header blockContext))),
      ra\<lparr>rn_state := snd (guaranteedDryRun rb (ethereumjsTransactionToRethnet rb t)
              (dryRunBlockConfig blockContext force
                 (getBlockEnvDifficulty (difficulty (header blockContext))) prevRandao)
              (rn_state ra))\<rparr>)"
  using assms by (simp add: Rethnet_dryRun_def Let_def split: sum.splits prod.splits)

lemma Rethnet_dryRun_no_backend_call:
  assumes "getBlockPrevRandao rb ra (number (header blockContext))
             (mixHash (header blockContext)) = Inl e"
  shows "Rethnet_dryRun rb t blockContext force ra = (Inl e, ra)"
  using assms by (simp add: Rethnet_dryRun_def Let_def)

section \<open>dryRun and the state root\<close>


text \<open>
  On the example adapter, a transfer on which the backend returns and a contract creation
  on which it throws; and on an adapter whose own configuration is before London while the
  selector is at London, a block with a base fee and \<open>forceBaseFeeZero\<close>, on which the
  block rebuild throws and the backend is not called.
\<close>

lemma example_dryRun_outcomes:
  "fst (EthereumJS_dryRun exampleBackend txAB exampleBlock False exampleAdapter) =
     Inr transferRunTxResult"
  "fst (EthereumJS_dryRun exampleBackend txCreate exampleBlock False exampleAdapter) =
     Inl (Error ''contract creation is not supported'')"
  "fst (EthereumJS_dryRun exampleBackend txAB exampleBlock True berlinCommonAdapter) =
     Inl (Error ''A base fee for a block can only be set with EIP1559 being activated'')"
  by (simp_all add: dryRun_outcome dryRunBlock_cases exampleBackend_def transferRunTx_def
      txAB_def txCreate_def exampleAdapter_def berlinCommonAdapter_def accountOf_def
      exampleWorld_def emptyAccount_def Let_def toRunTxResult_def transferResult_def
      exampleExit_def transferRunTxResult_def exampleFromBlockData_def exampleBlock_def
      exampleHeader_def exampleHardforks_def exampleCommon_def orderHardforkGte_def
      exampleHardforkOrder_def)



section \<open>The block lifecycle\<close>

text \<open>
  Claim C2, as the code has it. In \<open>EthereumJSAdapter\<close>, \<open>startBlock\<close> on an adapter
  with a block already started raises \<open>Error("a block is already started")\<close>, and
  \<open>sealBlock\<close> on an adapter with no block started raises
  \<open>Error("Cannot seal a block that wasn't started")\<close>; both leave the adapter as it was.
  \<open>runTxInBlock\<close> does not look at the block-start marker: what it returns is the same
  whatever the marker holds. \<open>RethnetAdapter.sealBlock\<close> returns normally on every
  adapter state.
\<close>

theorem lifecycle_checks:
  "(blockStartStateRoot a \<noteq> None \<longrightarrow>
      EthereumJS_startBlock be a = (Inl (Error ''a block is already started''), a)) \<and>
   (blockStartStateRoot a = None \<longrightarrow>
      EthereumJS_sealBlock a = (Inl (Error ''Cannot seal a block that wasn't started''), a)) \<and>
   fst (EthereumJS_runTxInBlock be t blk (a\<lparr>blockStartStateRoot := marker\<rparr>)) =
     fst (EthereumJS_runTxInBlock be t blk a) \<and>
   Rethnet_sealBlock ra = (Inr (), ra)"
  by (simp add: EthereumJS_startBlock_def EthereumJS_sealBlock_def EthereumJS_runTxInBlock_def
      Rethnet_sealBlock_def Let_def split: prod.splits)

theorem lifecycle_checks_witness:
  "blockStartStateRoot openAdapter \<noteq> None \<and>
   EthereumJS_startBlock exampleBackend openAdapter =
     (Inl (Error ''a block is already started''), openAdapter) \<and>
   blockStartStateRoot exampleAdapter = None \<and>
   EthereumJS_sealBlock exampleAdapter =
     (Inl (Error ''Cannot seal a block that wasn't started''), exampleAdapter)"
  using lifecycle_checks [of openAdapter exampleBackend txAB exampleBlock None exampleRethnetAdapter]
    lifecycle_checks [of exampleAdapter exampleBackend txAB exampleBlock None exampleRethnetAdapter]
  by (simp add: openAdapter_def exampleAdapter_def)

text \<open>
  Claim C2 as stated fails: on the example adapter no block has been started, and
  \<open>EthereumJSAdapter.runTxInBlock\<close> executes the transfer and returns its result; on the
  example native adapter nothing was started either, and \<open>sealBlock\<close> returns normally.
\<close>

theorem lifecycle_unchecked_counterexample:
  "blockStartStateRoot exampleAdapter = None \<and>
   fst (EthereumJS_runTxInBlock exampleBackend txAB exampleBlock exampleAdapter) =
     Inr transferRunTxResult \<and>
   fst (Rethnet_sealBlock exampleRethnetAdapter) = Inr ()"
  by (simp add: EthereumJS_runTxInBlock_def exampleBackend_def transferRunTx_def txAB_def
      exampleAdapter_def accountOf_def exampleWorld_def emptyAccount_def Let_def
      toRunTxResult_def transferResult_def exampleExit_def transferRunTxResult_def
      Rethnet_sealBlock_def)

text \<open>
  Claim C3. On an adapter with no block started, after \<open>startBlock\<close>, any list of
  \<open>runTxInBlock\<close> calls (whatever each writes, and whether it returns or throws) and
  \<open>revertBlock\<close>, both \<open>startBlock\<close> and \<open>revertBlock\<close> have returned normally,
  \<open>getStateRoot\<close> returns the root it returned immediately before \<open>startBlock\<close>, the
  working state is the one before \<open>startBlock\<close>, and no block is started.
\<close>

theorem revertBlock_restores_state_root:
  assumes "blockStartStateRoot a = None"
  shows "fst (EthereumJS_startBlock be a) = Inr () \<and>
    fst (EthereumJS_revertBlock
          (runTxsInBlock be txs (snd (EthereumJS_startBlock be a)))) = Inr () \<and>
    fst (EthereumJS_getStateRoot be
          (snd (EthereumJS_revertBlock
            (runTxsInBlock be txs (snd (EthereumJS_startBlock be a)))))) =
      fst (EthereumJS_getStateRoot be a) \<and>
    working (stateManager
          (snd (EthereumJS_revertBlock
            (runTxsInBlock be txs (snd (EthereumJS_startBlock be a)))))) =
      working (stateManager a) \<and>
    blockStartStateRoot
          (snd (EthereumJS_revertBlock
            (runTxsInBlock be txs (snd (EthereumJS_startBlock be a))))) = None"
proof -
  let ?root = "stateRootOf be (working (stateManager a))"
  let ?a1 = "snd (EthereumJS_startBlock be a)"
  let ?a2 = "runTxsInBlock be txs ?a1"
  have a1: "blockStartStateRoot ?a1 = Some ?root"
    "observed (stateManager ?a1) ?root = Some (working (stateManager a))"
    using assms by (simp_all add: startBlock_ok getStateRoot_snd)
  have a2: "blockStartStateRoot ?a2 = Some ?root"
    "observed (stateManager ?a2) ?root = Some (working (stateManager a))"
    using a1 runTxsInBlock_frame [of be txs ?a1] by simp_all
  have rev: "EthereumJS_revertBlock ?a2 =
      (Inr (), ?a2\<lparr>stateManager := (stateManager ?a2)\<lparr>working := working (stateManager a)\<rparr>,
                   blockStartStateRoot := None\<rparr>)"
    using a2 by (simp add: EthereumJS_revertBlock_def sm_setStateRoot_def)
  have started: "fst (EthereumJS_startBlock be a) = Inr ()"
    using assms by (simp add: startBlock_ok)
  show ?thesis
    using started by (simp add: rev getStateRoot_fst)
qed

theorem revertBlock_restores_state_root_witness:
  "blockStartStateRoot exampleAdapter = None \<and>
   fst (EthereumJS_getStateRoot exampleBackend
          (snd (EthereumJS_revertBlock
            (runTxsInBlock exampleBackend exampleTxs
               (snd (EthereumJS_startBlock exampleBackend exampleAdapter)))))) =
     fst (EthereumJS_getStateRoot exampleBackend exampleAdapter)"
proof -
  have h: "blockStartStateRoot exampleAdapter = None"
    by (simp add: exampleAdapter_def)
  from revertBlock_restores_state_root [OF h, of exampleBackend exampleTxs] h
  show ?thesis by simp
qed

text \<open>
  Claim C10. On an adapter with a block started, \<open>EthereumJSAdapter.sealBlock\<close> returns
  normally and changes nothing but the block-start marker, which it clears: the state
  store, the state root, and the account, storage and code maps are the same before and
  after. What the preceding \<open>runTxInBlock\<close> calls wrote is therefore still there, with
  no commit step.
\<close>

theorem sealBlock_only_clears_marker:
  assumes "blockStartStateRoot a \<noteq> None"
  shows "EthereumJS_sealBlock a = (Inr (), a\<lparr>blockStartStateRoot := None\<rparr>) \<and>
    stateManager (snd (EthereumJS_sealBlock a)) = stateManager a \<and>
    fst (EthereumJS_getStateRoot be (snd (EthereumJS_sealBlock a))) =
      fst (EthereumJS_getStateRoot be a) \<and>
    accounts (working (stateManager (snd (EthereumJS_sealBlock a)))) =
      accounts (working (stateManager a)) \<and>
    storage (working (stateManager (snd (EthereumJS_sealBlock a)))) =
      storage (working (stateManager a)) \<and>
    code (working (stateManager (snd (EthereumJS_sealBlock a)))) =
      code (working (stateManager a))"
proof -
  from assms have seal: "EthereumJS_sealBlock a = (Inr (), a\<lparr>blockStartStateRoot := None\<rparr>)"
    by (simp add: EthereumJS_sealBlock_def)
  show ?thesis
    unfolding seal by (simp add: getStateRoot_fst)
qed

text \<open>
  The witness seals the example block after its two transfers: the root after
  \<open>sealBlock\<close> is the root the transfers left.
\<close>

theorem sealBlock_only_clears_marker_witness:
  "blockStartStateRoot (runTxsInBlock exampleBackend exampleTxs
      (snd (EthereumJS_startBlock exampleBackend exampleAdapter))) \<noteq> None \<and>
   fst (EthereumJS_getStateRoot exampleBackend
     (snd (EthereumJS_sealBlock (runTxsInBlock exampleBackend exampleTxs
        (snd (EthereumJS_startBlock exampleBackend exampleAdapter)))))) = [97, 1, 2]"
proof -
  have none: "blockStartStateRoot exampleAdapter = None"
    by (simp add: exampleAdapter_def)
  have h: "blockStartStateRoot (runTxsInBlock exampleBackend exampleTxs
      (snd (EthereumJS_startBlock exampleBackend exampleAdapter))) \<noteq> None"
    using runTxsInBlock_frame [of exampleBackend exampleTxs
        "snd (EthereumJS_startBlock exampleBackend exampleAdapter)"]
    by (simp add: startBlock_ok [OF none])
  have same: "fst (EthereumJS_getStateRoot exampleBackend
     (snd (EthereumJS_sealBlock (runTxsInBlock exampleBackend exampleTxs
        (snd (EthereumJS_startBlock exampleBackend exampleAdapter)))))) =
     fst (EthereumJS_getStateRoot exampleBackend
       (runTxsInBlock exampleBackend exampleTxs
        (snd (EthereumJS_startBlock exampleBackend exampleAdapter))))"
    using sealBlock_only_clears_marker [OF h, of exampleBackend] by blast
  have "fst (EthereumJS_getStateRoot exampleBackend
       (runTxsInBlock exampleBackend exampleTxs
        (snd (EthereumJS_startBlock exampleBackend exampleAdapter)))) = [97, 1, 2]"
    using example_block_writes by blast
  with same h show ?thesis by simp
qed

section \<open>Block rewards\<close>


lemma addBlockRewards_negative:
  assumes "balance (sm_getAccount address (stateManager a)) + reward < 0"
  shows "EthereumJS_addBlockRewards ((address, reward) # rewards) a = (Inl InvalidAccount, a)"
  using assms by (simp add: Let_def sm_putAccount_def)






section \<open>The success reason\<close>

lemma Object_keys_empty: "(Object_keys obj = []) = (obj = [])"
  by (simp add: Object_keys_def)

text \<open>
  Claim C4. For a backend result with no exception error, \<open>_afterMessageHandler\<close> builds
  a success result whose reason is \<open>SelfDestruct\<close> when the frame's \<open>selfdestruct\<close> set is
  present and has at least one entry; otherwise \<open>Return\<close> when there is a created
  address or the return value is not empty; otherwise \<open>Stop\<close>.
\<close>

theorem success_reason_rule:
  assumes "exceptionError (execResult result) = None"
  shows "\<exists>gasUsed' gasRefunded logs' output'.
    executionResult be result =
      Inr (SuccessResult
        (if \<exists>sd. selfdestruct (execResult result) = Some sd \<and> sd \<noteq> [] then SelfDestruct
         else if createdAddress result \<noteq> None \<or> returnValue (execResult result) \<noteq> []
         then Return else Stop)
        gasUsed' gasRefunded logs' output')"
proof (cases "selfdestruct (execResult result)")
  case None
  with assms show ?thesis by (simp add: executionResult_def Let_def)
next
  case (Some sd)
  with assms show ?thesis
    by (simp add: executionResult_def Let_def Object_keys_empty)
qed

theorem success_reason_rule_witness:
  "exceptionError (execResult selfDestructResult) = None \<and>
   (\<exists>gasUsed' gasRefunded logs' output'.
      executionResult exampleBackend selfDestructResult =
        Inr (SuccessResult SelfDestruct gasUsed' gasRefunded logs' output'))"
proof -
  have h: "exceptionError (execResult selfDestructResult) = None"
    by (simp add: selfDestructResult_def)
  have sd: "\<exists>sd. selfdestruct (execResult selfDestructResult) = Some sd \<and> sd \<noteq> []"
    by (simp add: selfDestructResult_def)
  from success_reason_rule [OF h, of exampleBackend] sd h
  show ?thesis by simp
qed

text \<open>The three reasons on concrete results, and a created address with no return value.\<close>

lemma example_reasons:
  "executionResult exampleBackend selfDestructResult =
     Inr (SuccessResult SelfDestruct 5000 0 [] (CallOutput [1]))"
  "executionResult exampleBackend
     (selfDestructResult\<lparr>execResult := (execResult selfDestructResult)\<lparr>selfdestruct := Some []\<rparr>\<rparr>) =
     Inr (SuccessResult Return 5000 0 [] (CallOutput [1]))"
  "executionResult exampleBackend
     (selfDestructResult\<lparr>execResult :=
        (execResult selfDestructResult)\<lparr>selfdestruct := None, returnValue := []\<rparr>\<rparr>) =
     Inr (SuccessResult Stop 5000 0 [] (CallOutput []))"
  "executionResult exampleBackend
     (selfDestructResult\<lparr>createdAddress := Some addrC, execResult :=
        (execResult selfDestructResult)\<lparr>selfdestruct := None, returnValue := []\<rparr>\<rparr>) =
     Inr (SuccessResult Return 5000 0 [] (CreateOutput [] addrC))"
  by (simp_all add: executionResult_def selfDestructResult_def Object_keys_def Let_def)

section \<open>The configuration and the block of a dry run\<close>

text \<open>
  Claim C5. Whenever \<open>EthereumJSAdapter.dryRun\<close> reaches the backend, the call is made
  under the chain configuration computed from the number of the block context the
  transaction is executed against (the source reads \<open>blockContext.header.number\<close> after
  the block's replacement): the chain id is the configured chain id when no fork block
  number is set or that number is at or past it, and otherwise the fork network id; the
  network id is the fork network id when one is set and otherwise the configured network
  id; the hardfork is the one the injected selector returns for that number. What
  \<open>dryRun\<close> returns is the converted outcome of that call, for an arbitrary backend; when
  the block rebuild throws, no call is made and \<open>dryRun\<close> fails with its error. The block
  executed against is the given block context unless it was rebuilt, and has the given
  block's number whenever the rebuild keeps the number.
\<close>

theorem dryRun_chain_configuration:
  "fst (EthereumJS_dryRun be t blockContext fbz a) =
     (case dryRunBlock be a blockContext fbz of
        Inl e \<Rightarrow> Inl e
      | Inr executed \<Rightarrow>
          toRunTxResult be
            (fst (runTx be
               \<lparr>block = executed, tx = t, skipNonce = True, skipBalance = True,
                skipBlockGasLimitValidation = True\<rparr>
               \<lparr>chainId =
                  (if forkBlockNumber a = None \<or>
                      (\<exists>forkBlock. forkBlockNumber a = Some forkBlock \<and>
                         forkBlock \<le> number (header executed))
                   then Some (configChainId a) else forkNetworkId a),
                networkId =
                  (if forkNetworkId a = None then configNetworkId a
                   else the (forkNetworkId a)),
                hardfork = selectHardfork a (number (header executed))\<rparr>
               (working (stateManager a))))) \<and>
   (\<not> (hardforkGteHardfork be (selectHardfork a (number (header blockContext))) ''london'' \<and>
        (baseFeePerGas (header blockContext) = None \<or> fbz)) \<longrightarrow>
      dryRunBlock be a blockContext fbz = Inr blockContext) \<and>
   ((\<forall>rebuilt. fromBlockData be blockContext (adapter_common a) = Inr rebuilt \<longrightarrow>
        number (header rebuilt) = number (header blockContext)) \<longrightarrow>
    (\<forall>executed. dryRunBlock be a blockContext fbz = Inr executed \<longrightarrow>
        number (header executed) = number (header blockContext)))"
proof -
  have config: "dryRunCommon a executed =
     \<lparr>chainId =
        (if forkBlockNumber a = None \<or>
            (\<exists>forkBlock. forkBlockNumber a = Some forkBlock \<and>
               forkBlock \<le> number (header executed))
         then Some (configChainId a) else forkNetworkId a),
      networkId =
        (if forkNetworkId a = None then configNetworkId a else the (forkNetworkId a)),
      hardfork = selectHardfork a (number (header executed))\<rparr>" for executed
    by (auto simp: dryRunCommon_def split: option.splits)
  have outcome: "fst (EthereumJS_dryRun be t blockContext fbz a) =
     (case dryRunBlock be a blockContext fbz of
        Inl e \<Rightarrow> Inl e
      | Inr executed \<Rightarrow>
          toRunTxResult be
            (fst (runTx be
               \<lparr>block = executed, tx = t, skipNonce = True, skipBalance = True,
                skipBlockGasLimitValidation = True\<rparr>
               \<lparr>chainId =
                  (if forkBlockNumber a = None \<or>
                      (\<exists>forkBlock. forkBlockNumber a = Some forkBlock \<and>
                         forkBlock \<le> number (header executed))
                   then Some (configChainId a) else forkNetworkId a),
                networkId =
                  (if forkNetworkId a = None then configNetworkId a
                   else the (forkNetworkId a)),
                hardfork = selectHardfork a (number (header executed))\<rparr>
               (working (stateManager a)))))"
    unfolding dryRun_outcome by (simp only: config)
  have given: "\<not> (hardforkGteHardfork be (selectHardfork a (number (header blockContext)))
          ''london'' \<and> (baseFeePerGas (header blockContext) = None \<or> fbz)) \<Longrightarrow>
      dryRunBlock be a blockContext fbz = Inr blockContext"
    unfolding dryRunBlock_cases by (rule if_not_P)
  have numbers: "number (header executed) = number (header blockContext)"
    if keeps: "\<forall>rebuilt. fromBlockData be blockContext (adapter_common a) = Inr rebuilt \<longrightarrow>
        number (header rebuilt) = number (header blockContext)"
      and ex: "dryRunBlock be a blockContext fbz = Inr executed" for executed
    using keeps ex by (auto simp: dryRunBlock_cases split: if_splits sum.splits)
  from outcome given numbers show ?thesis by blast
qed

text \<open>
  On the example adapter the block of number 12 with \<open>forceBaseFeeZero\<close> is rebuilt: the
  rebuild of the example backend keeps the block, so the number is the given one.
\<close>

lemma example_rebuilt_block:
  "dryRunBlock exampleBackend exampleAdapter exampleBlock True =
     Inr (exampleBlock\<lparr>header := exampleHeader\<lparr>baseFeePerGas := Some 0\<rparr>\<rparr>)"
  by (simp add: dryRunBlock_cases exampleBackend_def exampleAdapter_def exampleBlock_def
      exampleHeader_def exampleHardforks_def exampleCommon_def orderHardforkGte_def
      exampleHardforkOrder_def exampleFromBlockData_def)

text \<open>
  The witness has two calls. On a forked adapter (fork network id 1, fork block 10) and a
  block of number 5, before the fork block and before London, the block is executed as
  given, the chain id and the network id are both 1 and the hardfork is the selector's
  \<open>berlin\<close>. On the example adapter and the block of number 12 with \<open>forceBaseFeeZero\<close>,
  the block is rebuilt with its number kept, and the configuration is the configured one
  with the selector's \<open>london\<close>.
\<close>

theorem dryRun_chain_configuration_witness:
  "\<not> (hardforkGteHardfork exampleBackend
         (selectHardfork forkedAdapter (number (header preLondonBlock))) ''london'' \<and>
       (baseFeePerGas (header preLondonBlock) = None \<or> False)) \<and>
   fst (EthereumJS_dryRun exampleBackend txAB preLondonBlock False forkedAdapter) =
     toRunTxResult exampleBackend
       (fst (runTx exampleBackend
          \<lparr>block = preLondonBlock, tx = txAB,
           skipNonce = True, skipBalance = True, skipBlockGasLimitValidation = True\<rparr>
          \<lparr>chainId = Some 1, networkId = 1, hardfork = ''berlin''\<rparr>
          (working (stateManager forkedAdapter)))) \<and>
   fst (EthereumJS_dryRun exampleBackend txAB exampleBlock True exampleAdapter) =
     toRunTxResult exampleBackend
       (fst (runTx exampleBackend
          \<lparr>block = exampleBlock\<lparr>header := exampleHeader\<lparr>baseFeePerGas := Some 0\<rparr>\<rparr>, tx = txAB,
           skipNonce = True, skipBalance = True, skipBlockGasLimitValidation = True\<rparr>
          \<lparr>chainId = Some 31337, networkId = 31337,
           hardfork = exampleHardforks (number (header exampleBlock))\<rparr>
          (working (stateManager exampleAdapter))))"
proof -
  have h: "\<not> (hardforkGteHardfork exampleBackend
         (selectHardfork forkedAdapter (number (header preLondonBlock))) ''london'' \<and>
       (baseFeePerGas (header preLondonBlock) = None \<or> False))"
    by (simp add: exampleBackend_def forkedAdapter_def exampleAdapter_def preLondonBlock_def
        exampleHeader_def exampleHardforks_def orderHardforkGte_def exampleHardforkOrder_def)
  from dryRun_chain_configuration [of exampleBackend txAB preLondonBlock False forkedAdapter] h
  have given: "dryRunBlock exampleBackend forkedAdapter preLondonBlock False = Inr preLondonBlock"
    and outcome: "fst (EthereumJS_dryRun exampleBackend txAB preLondonBlock False forkedAdapter) =
     (case dryRunBlock exampleBackend forkedAdapter preLondonBlock False of
        Inl e \<Rightarrow> Inl e
      | Inr executed \<Rightarrow>
          toRunTxResult exampleBackend
            (fst (runTx exampleBackend
               \<lparr>block = executed, tx = txAB, skipNonce = True, skipBalance = True,
                skipBlockGasLimitValidation = True\<rparr>
               \<lparr>chainId =
                  (if forkBlockNumber forkedAdapter = None \<or>
                      (\<exists>forkBlock. forkBlockNumber forkedAdapter = Some forkBlock \<and>
                         forkBlock \<le> number (header executed))
                   then Some (configChainId forkedAdapter) else forkNetworkId forkedAdapter),
                networkId =
                  (if forkNetworkId forkedAdapter = None then configNetworkId forkedAdapter
                   else the (forkNetworkId forkedAdapter)),
                hardfork = selectHardfork forkedAdapter (number (header executed))\<rparr>
               (working (stateManager forkedAdapter)))))"
    by blast+
  have first: "fst (EthereumJS_dryRun exampleBackend txAB preLondonBlock False forkedAdapter) =
     toRunTxResult exampleBackend
       (fst (runTx exampleBackend
          \<lparr>block = preLondonBlock, tx = txAB,
           skipNonce = True, skipBalance = True, skipBlockGasLimitValidation = True\<rparr>
          \<lparr>chainId = Some 1, networkId = 1, hardfork = ''berlin''\<rparr>
          (working (stateManager forkedAdapter))))"
    using outcome unfolding given
    by (simp add: forkedAdapter_def exampleAdapter_def preLondonBlock_def exampleHeader_def
        exampleHardforks_def)
  have keeps: "\<forall>rebuilt. fromBlockData exampleBackend exampleBlock (adapter_common exampleAdapter) =
      Inr rebuilt \<longrightarrow> number (header rebuilt) = number (header exampleBlock)"
    by (auto simp: exampleBackend_def exampleFromBlockData_def split: if_splits)
  from dryRun_chain_configuration [of exampleBackend txAB exampleBlock True exampleAdapter] keeps
  have numbers: "\<forall>executed. dryRunBlock exampleBackend exampleAdapter exampleBlock True =
        Inr executed \<longrightarrow> number (header executed) = number (header exampleBlock)"
    and outcome': "fst (EthereumJS_dryRun exampleBackend txAB exampleBlock True exampleAdapter) =
     (case dryRunBlock exampleBackend exampleAdapter exampleBlock True of
        Inl e \<Rightarrow> Inl e
      | Inr executed \<Rightarrow>
          toRunTxResult exampleBackend
            (fst (runTx exampleBackend
               \<lparr>block = executed, tx = txAB, skipNonce = True, skipBalance = True,
                skipBlockGasLimitValidation = True\<rparr>
               \<lparr>chainId =
                  (if forkBlockNumber exampleAdapter = None \<or>
                      (\<exists>forkBlock. forkBlockNumber exampleAdapter = Some forkBlock \<and>
                         forkBlock \<le> number (header executed))
                   then Some (configChainId exampleAdapter) else forkNetworkId exampleAdapter),
                networkId =
                  (if forkNetworkId exampleAdapter = None then configNetworkId exampleAdapter
                   else the (forkNetworkId exampleAdapter)),
                hardfork = selectHardfork exampleAdapter (number (header executed))\<rparr>
               (working (stateManager exampleAdapter)))))"
    by blast+
  have kept: "number (header (exampleBlock\<lparr>header := exampleHeader\<lparr>baseFeePerGas := Some 0\<rparr>\<rparr>)) =
      number (header exampleBlock)"
    using numbers example_rebuilt_block by blast
  have second: "fst (EthereumJS_dryRun exampleBackend txAB exampleBlock True exampleAdapter) =
     toRunTxResult exampleBackend
       (fst (runTx exampleBackend
          \<lparr>block = exampleBlock\<lparr>header := exampleHeader\<lparr>baseFeePerGas := Some 0\<rparr>\<rparr>, tx = txAB,
           skipNonce = True, skipBalance = True, skipBlockGasLimitValidation = True\<rparr>
          \<lparr>chainId = Some 31337, networkId = 31337,
           hardfork = exampleHardforks (number (header exampleBlock))\<rparr>
          (working (stateManager exampleAdapter))))"
    using outcome' unfolding example_rebuilt_block
    by (simp only: sum.case kept) (simp add: exampleAdapter_def)
  from h first second show ?thesis by blast
qed

text \<open>
  Claim C6, as the code has it. In \<open>EthereumJSAdapter.dryRun\<close>, when the hardfork selected
  for the block's number is at or after London and the block has no base fee or
  \<open>forceBaseFeeZero\<close> holds, the block context is rebuilt under the adapter's own chain
  configuration; if the rebuild throws, \<open>dryRun\<close> fails with its error and the
  transaction is not executed, and otherwise the transaction is executed against the
  rebuilt block with \<open>baseFeePerGas\<close> set to 0. In every other case it is executed against
  the block context as given. \<open>RethnetAdapter.dryRun\<close> does not consult the hardfork:
  it hands the backend the base fee 0 when \<open>forceBaseFeeZero\<close> is \<open>true\<close> and the
  block's own \<open>baseFeePerGas\<close> (possibly absent) otherwise.
\<close>

theorem dryRun_base_fee:
  "fst (EthereumJS_dryRun be t blockContext fbz a) =
     (if hardforkGteHardfork be (selectHardfork a (number (header blockContext))) ''london'' \<and>
         (baseFeePerGas (header blockContext) = None \<or> fbz)
      then
        (case fromBlockData be blockContext (adapter_common a) of
           Inl e \<Rightarrow> Inl e
         | Inr rebuilt \<Rightarrow>
             toRunTxResult be
               (fst (runTx be
                  \<lparr>block = rebuilt\<lparr>header := (header rebuilt)\<lparr>baseFeePerGas := Some 0\<rparr>\<rparr>,
                   tx = t, skipNonce = True, skipBalance = True,
                   skipBlockGasLimitValidation = True\<rparr>
                  (dryRunCommon a rebuilt)
                  (working (stateManager a)))))
      else
        toRunTxResult be
          (fst (runTx be
             \<lparr>block = blockContext, tx = t, skipNonce = True, skipBalance = True,
              skipBlockGasLimitValidation = True\<rparr>
             (dryRunCommon a blockContext)
             (working (stateManager a))))) \<and>
   (getBlockPrevRandao rb ra (number (header blockContext)) (mixHash (header blockContext)) =
      Inr prevRandao \<longrightarrow>
    fst (Rethnet_dryRun rb t blockContext force ra) =
      (case fst (guaranteedDryRun rb (ethereumjsTransactionToRethnet rb t)
              \<lparr>env_number = number (header blockContext),
               env_coinbase = coinbase (header blockContext),
               env_timestamp = timestamp (header blockContext),
               env_basefee =
                 (if force = Some True then Some 0 else baseFeePerGas (header blockContext)),
               env_gasLimit = gasLimit (header blockContext),
               env_difficulty = getBlockEnvDifficulty (difficulty (header blockContext)),
               env_prevrandao = prevRandao\<rparr>
              (rn_state ra)) of
         Inl e \<Rightarrow> Inl e
       | Inr rethnetResult \<Rightarrow>
           rethnetResultToRunTxResult rb (tr_execResult rethnetResult)
             (gasUsed (header blockContext))))"
proof -
  have ej: "fst (EthereumJS_dryRun be t blockContext fbz a) =
     (if hardforkGteHardfork be (selectHardfork a (number (header blockContext))) ''london'' \<and>
         (baseFeePerGas (header blockContext) = None \<or> fbz)
      then
        (case fromBlockData be blockContext (adapter_common a) of
           Inl e \<Rightarrow> Inl e
         | Inr rebuilt \<Rightarrow>
             toRunTxResult be
               (fst (runTx be
                  \<lparr>block = rebuilt\<lparr>header := (header rebuilt)\<lparr>baseFeePerGas := Some 0\<rparr>\<rparr>,
                   tx = t, skipNonce = True, skipBalance = True,
                   skipBlockGasLimitValidation = True\<rparr>
                  (dryRunCommon a rebuilt)
                  (working (stateManager a)))))
      else
        toRunTxResult be
          (fst (runTx be
             \<lparr>block = blockContext, tx = t, skipNonce = True, skipBalance = True,
              skipBlockGasLimitValidation = True\<rparr>
             (dryRunCommon a blockContext)
             (working (stateManager a)))))"
  proof (cases "hardforkGteHardfork be (selectHardfork a (number (header blockContext)))
        ''london'' \<and> (baseFeePerGas (header blockContext) = None \<or> fbz)")
    case True
    have rebuilt: "dryRunBlock be a blockContext fbz =
        (case fromBlockData be blockContext (adapter_common a) of
           Inl e \<Rightarrow> Inl e
         | Inr rebuilt \<Rightarrow> Inr (rebuilt\<lparr>header := (header rebuilt)\<lparr>baseFeePerGas := Some 0\<rparr>\<rparr>))"
      unfolding dryRunBlock_cases using True by (rule if_P)
    have run: "fst (EthereumJS_dryRun be t blockContext fbz a) =
        (case fromBlockData be blockContext (adapter_common a) of
           Inl e \<Rightarrow> Inl e
         | Inr rebuilt \<Rightarrow>
             toRunTxResult be
               (fst (runTx be
                  \<lparr>block = rebuilt\<lparr>header := (header rebuilt)\<lparr>baseFeePerGas := Some 0\<rparr>\<rparr>,
                   tx = t, skipNonce = True, skipBalance = True,
                   skipBlockGasLimitValidation = True\<rparr>
                  (dryRunCommon a rebuilt)
                  (working (stateManager a)))))"
      by (simp add: dryRun_outcome rebuilt split: sum.splits)
    show ?thesis unfolding run using True by (rule if_P [symmetric])
  next
    case False
    have given: "dryRunBlock be a blockContext fbz = Inr blockContext"
      unfolding dryRunBlock_cases using False by (rule if_not_P)
    have run: "fst (EthereumJS_dryRun be t blockContext fbz a) =
        toRunTxResult be
          (fst (runTx be
             \<lparr>block = blockContext, tx = t, skipNonce = True, skipBalance = True,
              skipBlockGasLimitValidation = True\<rparr>
             (dryRunCommon a blockContext)
             (working (stateManager a))))"
      by (simp add: dryRun_outcome given)
    show ?thesis unfolding run using False by (rule if_not_P [symmetric])
  qed
  have reth: "getBlockPrevRandao rb ra (number (header blockContext))
        (mixHash (header blockContext)) = Inr prevRandao \<Longrightarrow>
    fst (Rethnet_dryRun rb t blockContext force ra) =
      (case fst (guaranteedDryRun rb (ethereumjsTransactionToRethnet rb t)
              \<lparr>env_number = number (header blockContext),
               env_coinbase = coinbase (header blockContext),
               env_timestamp = timestamp (header blockContext),
               env_basefee =
                 (if force = Some True then Some 0 else baseFeePerGas (header blockContext)),
               env_gasLimit = gasLimit (header blockContext),
               env_difficulty = getBlockEnvDifficulty (difficulty (header blockContext)),
               env_prevrandao = prevRandao\<rparr>
              (rn_state ra)) of
         Inl e \<Rightarrow> Inl e
       | Inr rethnetResult \<Rightarrow>
           rethnetResultToRunTxResult rb (tr_execResult rethnetResult)
             (gasUsed (header blockContext)))"
    by (simp add: Rethnet_dryRun_outcome dryRunBlockConfig_def)
  from ej reth show ?thesis by blast
qed

text \<open>
  The native backend of the examples reports the base fee it received as \<open>gasUsed\<close>:
  on the block of number 5 (hardfork \<open>berlin\<close>, base fee 7) with \<open>forceBaseFeeZero\<close> it
  received 0.
\<close>

theorem dryRun_base_fee_witness:
  "getBlockPrevRandao echoBackend exampleRethnetAdapter (number (header preLondonBlock))
      (mixHash (header preLondonBlock)) = Inr None \<and>
   fst (Rethnet_dryRun echoBackend txAB preLondonBlock (Some True) exampleRethnetAdapter) =
     Inr \<lparr>res_bloom = [], res_createdAddress = None, res_gasUsed = 0, res_returnValue = [],
          res_exit = Exit 0, res_receipt = []\<rparr>"
proof -
  have h: "getBlockPrevRandao echoBackend exampleRethnetAdapter (number (header preLondonBlock))
      (mixHash (header preLondonBlock)) = Inr None"
    by (simp add: getBlockPrevRandao_def echoBackend_def exampleRethnetAdapter_def
        preLondonBlock_def exampleHeader_def exampleHardforks_def orderHardforkGte_def
        exampleHardforkOrder_def Let_def)
  from dryRun_base_fee [of exampleBackend txAB preLondonBlock False exampleAdapter echoBackend
      exampleRethnetAdapter None "Some True"] h
  show ?thesis by (simp add: echoBackend_def)
qed

text \<open>
  Claim C6 as stated fails on \<open>RethnetAdapter.dryRun\<close>: for the block of number 5 the
  selected hardfork is before London, so the claim has the block's own base fee 7 used;
  with \<open>forceBaseFeeZero\<close> the adapter hands the backend the base fee 0.
\<close>

theorem base_fee_counterexample:
  "\<not> orderHardforkGte (rn_selectHardfork exampleRethnetAdapter (number (header preLondonBlock)))
        ''london'' \<and>
   baseFeePerGas (header preLondonBlock) = Some 7 \<and>
   env_basefee (dryRunBlockConfig preLondonBlock (Some True)
      (getBlockEnvDifficulty (difficulty (header preLondonBlock))) None) = Some 0 \<and>
   fst (Rethnet_dryRun echoBackend txAB preLondonBlock (Some True) exampleRethnetAdapter) =
     Inr \<lparr>res_bloom = [], res_createdAddress = None, res_gasUsed = 0, res_returnValue = [],
          res_exit = Exit 0, res_receipt = []\<rparr>"
  by (simp add: getBlockPrevRandao_def echoBackend_def exampleRethnetAdapter_def
        preLondonBlock_def exampleHeader_def exampleHardforks_def orderHardforkGte_def
        exampleHardforkOrder_def Let_def Rethnet_dryRun_def dryRunBlockConfig_def)

section \<open>The block environment of the native backend\<close>

text \<open>
  Claim C7. When the hardfork selected for the block's number is at or after the Merge,
  \<open>_getBlockPrevRandao\<close> returns the mix hash when there is one and fails with
  \<open>Error("mixHash must be set for post-merge hardfork")\<close> when there is none, and then
  \<open>dryRun\<close> fails with that error and leaves the adapter as it was; when the selected
  hardfork is before the Merge it returns \<open>undefined\<close> whatever the mix hash. \<open>dryRun\<close>
  hands the backend the value \<open>_getBlockPrevRandao\<close> returned as \<open>prevrandao\<close>.
\<close>

theorem prevRandao_mapping:
  "(hardforkGte rb (rn_selectHardfork ra (number (header blockContext))) (HardforkName_MERGE rb) \<longrightarrow>
      (\<forall>h. getBlockPrevRandao rb ra (number (header blockContext)) (Some h) = Inr (Some h)) \<and>
      getBlockPrevRandao rb ra (number (header blockContext)) None =
        Inl (Error ''mixHash must be set for post-merge hardfork'') \<and>
      (mixHash (header blockContext) = None \<longrightarrow>
         fst (Rethnet_dryRun rb t blockContext force ra) =
           Inl (Error ''mixHash must be set for post-merge hardfork''))) \<and>
   (\<not> hardforkGte rb (rn_selectHardfork ra (number (header blockContext))) (HardforkName_MERGE rb) \<longrightarrow>
      getBlockPrevRandao rb ra (number (header blockContext)) mh = Inr None) \<and>
   Rethnet_dryRun rb t blockContext force ra =
     (case getBlockPrevRandao rb ra (number (header blockContext))
             (mixHash (header blockContext)) of
        Inl e \<Rightarrow> (Inl e, ra)
      | Inr prevRandao \<Rightarrow>
          ((case fst (guaranteedDryRun rb (ethereumjsTransactionToRethnet rb t)
                  ((dryRunBlockConfig blockContext force
                      (getBlockEnvDifficulty (difficulty (header blockContext))) None)
                     \<lparr>env_prevrandao := prevRandao\<rparr>)
                  (rn_state ra)) of
              Inl e \<Rightarrow> Inl e
            | Inr rethnetResult \<Rightarrow>
                rethnetResultToRunTxResult rb (tr_execResult rethnetResult)
                  (gasUsed (header blockContext))),
           ra\<lparr>rn_state := snd (guaranteedDryRun rb (ethereumjsTransactionToRethnet rb t)
                  ((dryRunBlockConfig blockContext force
                      (getBlockEnvDifficulty (difficulty (header blockContext))) None)
                     \<lparr>env_prevrandao := prevRandao\<rparr>)
                  (rn_state ra))\<rparr>))"
proof -
  have upd: "\<And>pr. (dryRunBlockConfig blockContext force
                      (getBlockEnvDifficulty (difficulty (header blockContext))) None)
                     \<lparr>env_prevrandao := pr\<rparr> =
     dryRunBlockConfig blockContext force
       (getBlockEnvDifficulty (difficulty (header blockContext))) pr"
    by (simp add: dryRunBlockConfig_def)
  have run: "Rethnet_dryRun rb t blockContext force ra =
     (case getBlockPrevRandao rb ra (number (header blockContext))
             (mixHash (header blockContext)) of
        Inl e \<Rightarrow> (Inl e, ra)
      | Inr prevRandao \<Rightarrow>
          ((case fst (guaranteedDryRun rb (ethereumjsTransactionToRethnet rb t)
                  ((dryRunBlockConfig blockContext force
                      (getBlockEnvDifficulty (difficulty (header blockContext))) None)
                     \<lparr>env_prevrandao := prevRandao\<rparr>)
                  (rn_state ra)) of
              Inl e \<Rightarrow> Inl e
            | Inr rethnetResult \<Rightarrow>
                rethnetResultToRunTxResult rb (tr_execResult rethnetResult)
                  (gasUsed (header blockContext))),
           ra\<lparr>rn_state := snd (guaranteedDryRun rb (ethereumjsTransactionToRethnet rb t)
                  ((dryRunBlockConfig blockContext force
                      (getBlockEnvDifficulty (difficulty (header blockContext))) None)
                     \<lparr>env_prevrandao := prevRandao\<rparr>)
                  (rn_state ra))\<rparr>))"
  proof (cases "getBlockPrevRandao rb ra (number (header blockContext))
             (mixHash (header blockContext))")
    case (Inl e)
    then show ?thesis by (simp add: Rethnet_dryRun_no_backend_call)
  next
    case (Inr prevRandao)
    then show ?thesis unfolding upd by (simp add: Rethnet_dryRun_outcome)
  qed
  have post: "hardforkGte rb (rn_selectHardfork ra (number (header blockContext)))
        (HardforkName_MERGE rb) \<Longrightarrow> mixHash (header blockContext) = None \<Longrightarrow>
      fst (Rethnet_dryRun rb t blockContext force ra) =
           Inl (Error ''mixHash must be set for post-merge hardfork'')"
    by (simp add: Rethnet_dryRun_def getBlockPrevRandao_def Let_def)
  show ?thesis
    using run post by (simp add: getBlockPrevRandao_def Let_def)
qed

text \<open>
  The witness takes a block of number 25 (hardfork \<open>merge\<close>) with a mix hash and one
  without, and the block of number 12 (hardfork \<open>london\<close>).
\<close>

theorem prevRandao_mapping_witness:
  "orderHardforkGte (exampleHardforks 25) ''merge'' \<and>
   getBlockPrevRandao echoBackend exampleRethnetAdapter 25 (Some [0x11, 0x11]) =
     Inr (Some [0x11, 0x11]) \<and>
   mixHash (header mergeBlockNoMixHash) = None \<and>
   fst (Rethnet_dryRun echoBackend txAB mergeBlockNoMixHash None exampleRethnetAdapter) =
     Inl (Error ''mixHash must be set for post-merge hardfork'') \<and>
   \<not> orderHardforkGte (exampleHardforks 12) ''merge'' \<and>
   getBlockPrevRandao echoBackend exampleRethnetAdapter 12 (Some [0x11, 0x11]) = Inr None"
proof -
  have post: "orderHardforkGte (exampleHardforks 25) ''merge''"
    and pre: "\<not> orderHardforkGte (exampleHardforks 12) ''merge''"
    by (simp_all add: exampleHardforks_def orderHardforkGte_def exampleHardforkOrder_def)
  from prevRandao_mapping [of echoBackend exampleRethnetAdapter mergeBlockNoMixHash txAB None
      "Some [0x11, 0x11]"]
    prevRandao_mapping [of echoBackend exampleRethnetAdapter exampleBlock txAB None
      "Some [0x11, 0x11]"]
    post pre
  show ?thesis
    by (simp add: echoBackend_def exampleRethnetAdapter_def mergeBlockNoMixHash_def
        exampleBlock_def exampleHeader_def)
qed

text \<open>
  The native backend of the examples reports the \<open>prevrandao\<close> it received as the
  return value: after the Merge it is the block's mix hash.
\<close>

lemma example_prevRandao_passed:
  "fst (Rethnet_dryRun echoBackend txAB mergeBlock None exampleRethnetAdapter) =
     Inr \<lparr>res_bloom = [], res_createdAddress = None, res_gasUsed = 7,
          res_returnValue = [0x11, 0x11], res_exit = Exit 0, res_receipt = []\<rparr>"
  by (simp add: Rethnet_dryRun_def getBlockPrevRandao_def dryRunBlockConfig_def echoBackend_def
      exampleRethnetAdapter_def mergeBlock_def exampleHeader_def exampleHardforks_def
      orderHardforkGte_def exampleHardforkOrder_def Let_def)

section \<open>Warm addresses in the native adapter\<close>

text \<open>
  Claim C9. \<open>RethnetAdapter.isWarmedAddress\<close> returns \<open>true\<close> for every address and
  every adapter state, and leaves the adapter as it was.
\<close>

theorem isWarmedAddress_true:
  "Rethnet_isWarmedAddress ra address' = (Inr True, ra)"
  by (simp add: Rethnet_isWarmedAddress_def)

theorem isWarmedAddress_true_witness:
  "Rethnet_isWarmedAddress exampleRethnetAdapter addrC = (Inr True, exampleRethnetAdapter)"
  by (rule isWarmedAddress_true)

end
